theory Spec2Isabelle
  imports Complex_Main
begin

section \<open>Numbers\<close>

text \<open>
  The pipeline (\<^verbatim>\<open>scripts/process_data.py\<close>, Python) and the pages (JSX) compute on IEEE
  doubles. A finite double is modelled by the real number it stands for: rounding, the
  overflow of a result or of a decimal literal to an infinity and signed zeros are
  outside the model. The three special values are kept, since the JavaScript division
  produces them where Python raises.
\<close>

datatype double = Finite real | PosInf | NegInf | NaN

subsection \<open>JavaScript arithmetic on numbers\<close>

fun js_sub :: "double \<Rightarrow> double \<Rightarrow> double" where
  "js_sub (Finite x) (Finite y) = Finite (x - y)"
| "js_sub NaN _ = NaN"
| "js_sub _ NaN = NaN"
| "js_sub PosInf PosInf = NaN"
| "js_sub NegInf NegInf = NaN"
| "js_sub PosInf _ = PosInf"
| "js_sub NegInf _ = NegInf"
| "js_sub _ PosInf = NegInf"
| "js_sub _ NegInf = PosInf"

fun js_div :: "double \<Rightarrow> double \<Rightarrow> double" where
  "js_div (Finite x) (Finite y) =
     (if y \<noteq> 0 then Finite (x / y)
      else if 0 < x then PosInf
      else if x < 0 then NegInf
      else NaN)"
| "js_div NaN _ = NaN"
| "js_div _ NaN = NaN"
| "js_div (Finite x) _ = Finite 0"
| "js_div PosInf (Finite y) = (if 0 \<le> y then PosInf else NegInf)"
| "js_div NegInf (Finite y) = (if 0 \<le> y then NegInf else PosInf)"
| "js_div _ _ = NaN"

fun js_mul :: "double \<Rightarrow> double \<Rightarrow> double" where
  "js_mul (Finite x) (Finite y) = Finite (x * y)"
| "js_mul NaN _ = NaN"
| "js_mul _ NaN = NaN"
| "js_mul PosInf (Finite y) = (if 0 < y then PosInf else if y < 0 then NegInf else NaN)"
| "js_mul NegInf (Finite y) = (if 0 < y then NegInf else if y < 0 then PosInf else NaN)"
| "js_mul (Finite x) PosInf = (if 0 < x then PosInf else if x < 0 then NegInf else NaN)"
| "js_mul (Finite x) NegInf = (if 0 < x then NegInf else if x < 0 then PosInf else NaN)"
| "js_mul PosInf PosInf = PosInf"
| "js_mul NegInf NegInf = PosInf"
| "js_mul PosInf NegInf = NegInf"
| "js_mul NegInf PosInf = NegInf"

section \<open>Python values and the numeric helpers\<close>

text \<open>
  The exceptions the modelled code can raise: \<^verbatim>\<open>pd.read_csv\<close> on a missing file,
  \<^verbatim>\<open>df.iloc\<close> out of bounds, \<^verbatim>\<open>float(str)\<close> on a string that is no number (the
  message quotes the string given to \<^verbatim>\<open>float\<close>), \<^verbatim>\<open>float(int)\<close> on an integer
  beyond the range of a double, \<^verbatim>\<open>open\<close> on a file that cannot be opened for writing
  and \<^verbatim>\<open>json.dump\<close> on an object that does not serialise.
\<close>

datatype exn =
    FileNotFoundError string | IndexError | ValueError string | OverflowError
  | OSError string | TypeError

text \<open>
  A cell value as the helpers see it: \<^verbatim>\<open>None\<close>, a float (Python's or numpy's, the
  latter being a subclass), an \<^verbatim>\<open>int\<close> (unbounded), a \<^verbatim>\<open>str\<close>, or a scalar object of
  any other type that pandas does not count as missing. \<open>PObj\<close> carries what
  \<^verbatim>\<open>float(obj)\<close> returns, \<open>None\<close> when that call raises; numpy's integer scalars are
  such objects, as they are no instances of \<^verbatim>\<open>int\<close>. Strings are lists of 8-bit
  characters, read as the code points 0 to 255.
\<close>

datatype pyval = PNone | PFloat double | PInt int | PStr string | PObj "double option"

fun pd_isna :: "pyval \<Rightarrow> bool" where
  "pd_isna PNone = True"
| "pd_isna (PFloat NaN) = True"
| "pd_isna _ = False"

subsection \<open>String operations\<close>

definition startswith :: "string \<Rightarrow> string \<Rightarrow> bool" where
  "startswith s p = (take (length p) s = p)"

text \<open>\<^verbatim>\<open>s.replace(c, '')\<close> for a one-character \<open>c\<close>: every occurrence goes.\<close>

definition replace_char_empty :: "char \<Rightarrow> string \<Rightarrow> string" where
  "replace_char_empty c s = filter (\<lambda>x. x \<noteq> c) s"

text \<open>
  \<^verbatim>\<open>str.isspace\<close> on one character below 256: tab to carriage return, the four
  separators 0x1C to 0x1F, the space, NEL and the no-break space.
\<close>

definition py_isspace :: "char \<Rightarrow> bool" where
  "py_isspace c =
     (let n = (of_char c :: nat) in (9 \<le> n \<and> n \<le> 13) \<or> (28 \<le> n \<and> n \<le> 32) \<or> n = 133 \<or> n = 160)"

definition strip_chars :: "(char \<Rightarrow> bool) \<Rightarrow> string \<Rightarrow> string" where
  "strip_chars sp s = rev (dropWhile sp (rev (dropWhile sp s)))"

definition py_strip :: "string \<Rightarrow> string" where
  "py_strip s = strip_chars py_isspace s"

subsection \<open>The builtin float\<close>

text \<open>
  \<^verbatim>\<open>float(n)\<close> for an \<^verbatim>\<open>int\<close>: the nearest double, and OverflowError when that would
  be beyond the largest one, that is from \<open>2^1024 - 2^970\<close> on.
\<close>

definition float_of_int :: "int \<Rightarrow> exn + double" where
  "float_of_int n =
     (if \<bar>n\<bar> < 2 ^ 1024 - 2 ^ 970 then Inr (Finite (of_int n)) else Inl OverflowError)"

text \<open>
  \<^verbatim>\<open>float(s)\<close> for a \<^verbatim>\<open>str\<close> follows the grammar of the language reference: optional
  white space around an optional sign and then \<^verbatim>\<open>inf\<close>, \<^verbatim>\<open>infinity\<close> or \<^verbatim>\<open>nan\<close> in
  any case, or a decimal number with an optional exponent, where digits may be grouped by
  single underscores. The white space \<^verbatim>\<open>float\<close> skips is the ASCII one and the
  non-ASCII \<^verbatim>\<open>isspace\<close> characters, so 0x1C to 0x1F are not skipped.
\<close>

definition float_isspace :: "char \<Rightarrow> bool" where
  "float_isspace c =
     (let n = (of_char c :: nat) in (9 \<le> n \<and> n \<le> 13) \<or> n = 32 \<or> n = 133 \<or> n = 160)"

definition is_digit :: "char \<Rightarrow> bool" where
  "is_digit c = (let n = (of_char c :: nat) in 48 \<le> n \<and> n \<le> 57)"

definition digit_val :: "char \<Rightarrow> nat" where
  "digit_val c = of_char c - 48"

definition to_lower :: "char \<Rightarrow> char" where
  "to_lower c = (let n = (of_char c :: nat) in if 65 \<le> n \<and> n \<le> 90 then char_of (n + 32) else c)"

definition digits_val :: "string \<Rightarrow> nat" where
  "digits_val ds = foldl (\<lambda>a c. 10 * a + digit_val c) 0 ds"

text \<open>
  The rest of a digit part after its first digit: more digits, each optionally preceded
  by one underscore. The result is the digits read (underscores dropped) and the text left.
\<close>

fun digit_tail :: "string \<Rightarrow> string \<times> string" where
  "digit_tail [] = ([], [])"
| "digit_tail [c] = (if is_digit c then ([c], []) else ([], [c]))"
| "digit_tail (c # d # cs) =
     (if is_digit c then (case digit_tail (d # cs) of (ds, r) \<Rightarrow> (c # ds, r))
      else if c = CHR ''_'' \<and> is_digit d then (case digit_tail cs of (ds, r) \<Rightarrow> (d # ds, r))
      else ([], c # d # cs))"

definition digitpart :: "string \<Rightarrow> (string \<times> string) option" where
  "digitpart s =
     (case s of
        [] \<Rightarrow> None
      | c # cs \<Rightarrow>
          if is_digit c then (case digit_tail cs of (ds, r) \<Rightarrow> Some (c # ds, r)) else None)"

definition mantissa :: "string \<Rightarrow> string \<Rightarrow> real" where
  "mantissa ip fp = real (digits_val ip) + real (digits_val fp) / 10 ^ length fp"

text \<open>\<^verbatim>\<open>[digitpart] "." digitpart | digitpart ["."]\<close>: the value and the text left.\<close>

definition number :: "string \<Rightarrow> (real \<times> string) option" where
  "number s =
     (case digitpart s of
        Some (ip, r) \<Rightarrow>
          (case r of
             [] \<Rightarrow> Some (mantissa ip [], [])
           | c # r' \<Rightarrow>
               if c = CHR ''.'' then
                 (case digitpart r' of
                    Some (fp, r'') \<Rightarrow> Some (mantissa ip fp, r'')
                  | None \<Rightarrow> Some (mantissa ip [], r'))
               else Some (mantissa ip [], r))
      | None \<Rightarrow>
          (case s of
             [] \<Rightarrow> None
           | c # r' \<Rightarrow>
               if c = CHR ''.'' then
                 (case digitpart r' of
                    Some (fp, r'') \<Rightarrow> Some (mantissa [] fp, r'')
                  | None \<Rightarrow> None)
               else None))"

text \<open>The exponent, which has to be all of the text left; none stands for 0.\<close>

definition exponent :: "string \<Rightarrow> int option" where
  "exponent r =
     (case r of
        [] \<Rightarrow> Some 0
      | c # r' \<Rightarrow>
          if c = CHR ''e'' \<or> c = CHR ''E'' then
            (case r' of
               [] \<Rightarrow> None
             | sg # r'' \<Rightarrow>
                 (case digitpart (if sg = CHR ''-'' \<or> sg = CHR ''+'' then r'' else r') of
                    Some (ds, []) \<Rightarrow>
                      Some (if sg = CHR ''-'' then - int (digits_val ds) else int (digits_val ds))
                  | _ \<Rightarrow> None))
          else None)"

definition scale :: "real \<Rightarrow> int \<Rightarrow> real" where
  "scale m e = (if 0 \<le> e then m * 10 ^ nat e else m / 10 ^ nat (- e))"

definition float_str :: "string \<Rightarrow> double option" where
  "float_str s =
     (let t = strip_chars float_isspace s;
          neg = startswith t ''-'';
          u = (if startswith t ''-'' \<or> startswith t ''+'' then tl t else t);
          l = map to_lower u
      in if l = ''inf'' \<or> l = ''infinity'' then Some (if neg then NegInf else PosInf)
         else if l = ''nan'' then Some NaN
         else (case number u of
                 None \<Rightarrow> None
               | Some (m, r) \<Rightarrow>
                   (case exponent r of
                      None \<Rightarrow> None
                    | Some e \<Rightarrow> Some (Finite ((if neg then - 1 else 1) * scale m e)))))"

definition float_of_str :: "string \<Rightarrow> exn + double" where
  "float_of_str s = (case float_str s of None \<Rightarrow> Inl (ValueError s) | Some d \<Rightarrow> Inr d)"

subsection \<open>The helpers of the script\<close>

text \<open>
  \<^verbatim>\<open>clean_currency(value)\<close>. The branches in the order of the source: missing, number,
  string (an Excel error such as \<^verbatim>\<open>#REF!\<close> or the empty string first), anything else.
  The two \<^verbatim>\<open>float\<close> calls are outside any \<^verbatim>\<open>try\<close>, so what they raise leaves the
  function.
\<close>

definition clean_currency :: "pyval \<Rightarrow> exn + double" where
  "clean_currency value =
     (if pd_isna value then Inr (Finite 0)
      else case value of
        PInt n \<Rightarrow> float_of_int n
      | PFloat d \<Rightarrow> Inr d
      | PStr s \<Rightarrow>
          if startswith s ''#'' \<or> s = [] then Inr (Finite 0)
          else (let cleaned = py_strip (replace_char_empty CHR '','' (replace_char_empty CHR ''$'' s))
                in if cleaned \<noteq> [] then float_of_str cleaned else Inr (Finite 0))
      | _ \<Rightarrow> Inr (Finite 0))"

text \<open>
  \<^verbatim>\<open>safe_float(value)\<close>. Only the last \<^verbatim>\<open>float(value)\<close> is inside the \<^verbatim>\<open>try\<close>, whose
  bare \<^verbatim>\<open>except\<close> turns every exception into 0; the conversion of an \<^verbatim>\<open>int\<close> or
  \<^verbatim>\<open>float\<close> instance stands before it.
\<close>

definition safe_float :: "pyval \<Rightarrow> exn + double" where
  "safe_float value =
     (if pd_isna value then Inr (Finite 0)
      else case value of
        PInt n \<Rightarrow> float_of_int n
      | PFloat d \<Rightarrow> Inr d
      | PStr s \<Rightarrow>
          if startswith s ''#'' then Inr (Finite 0)
          else (case float_of_str s of Inl e \<Rightarrow> Inr (Finite 0) | Inr d \<Rightarrow> Inr d)
      | PObj conv \<Rightarrow> (case conv of None \<Rightarrow> Inr (Finite 0) | Some d \<Rightarrow> Inr d)
      | PNone \<Rightarrow> Inr (Finite 0))"

section \<open>Metric derivation\<close>

text \<open>
  \<^verbatim>\<open>safe_divide(numerator, denominator)\<close> of the pipeline: the guard comes first, so the
  division is never reached with a zero denominator.
\<close>

definition safe_divide :: "real \<Rightarrow> real \<Rightarrow> real" where
  "safe_divide numerator denominator =
     (if denominator = 0 then 0 else numerator / denominator)"

text \<open>
  \<^verbatim>\<open>calculateVariance(actual, budgeted)\<close> of RevenuePage.jsx and ExpensePage.jsx:
  \<^verbatim>\<open>((actual - budgeted) / budgeted) * 100\<close>, with no guard. The arguments are fields of
  a parsed JSON record, hence finite numbers.
\<close>

definition calculateVariance :: "real \<Rightarrow> real \<Rightarrow> double" where
  "calculateVariance actual budgeted =
     js_mul (js_div (js_sub (Finite actual) (Finite budgeted)) (Finite budgeted)) (Finite 100)"

text \<open>
  The conditional expression of \<^verbatim>\<open>main\<close> that classifies the months in reserve:
  \<^verbatim>\<open>'good' if months >= 3 else 'warning' if months >= 2 else 'critical'\<close>.
\<close>

definition reserve_health :: "real \<Rightarrow> string" where
  "reserve_health months =
     (if months \<ge> 3 then ''good'' else if months \<ge> 2 then ''warning'' else ''critical'')"

section \<open>The annual data and the flow graph\<close>

text \<open>
  The dictionaries the pipeline passes on have fixed keys, so they are records. A category
  is \<^verbatim>\<open>{'actual': ..., 'budgeted': ...}\<close>; the amounts are finite and modelled as reals.
  The revenue keys are those the revenue page reads, in the order of the graph's labels;
  the expense keys are those \<^verbatim>\<open>calculate_sankey_data\<close> and the expense page read.
  The key \<^verbatim>\<open>total\<close> of the two dictionaries is the field \<open>revenue_total\<close> and
  \<open>expenses_total\<close>.
\<close>

record category =
  actual :: real
  budgeted :: real

record revenue =
  contributions :: category
  grants :: category
  earned_revenue :: category
  fundraising_events :: category
  sponsorships :: category
  other :: category
  revenue_total :: category

record expenses =
  salaries_wages :: category
  payroll_taxes :: category
  benefits :: category
  expenses_total :: category

record reserves =
  current_reserves :: real
  months_reserve :: real

record annual_data =
  revenue :: revenue
  expenses :: expenses
  reserves :: reserves

text \<open>
  \<^verbatim>\<open>{'labels': ..., 'sources': ..., 'targets': ..., 'values': ...}\<close>: the three edge lists
  are aligned by position.
\<close>

record sankey_data =
  labels :: "string list"
  sources :: "nat list"
  targets :: "nat list"
  edge_values :: "real list"

text \<open>
  \<^verbatim>\<open>calculate_sankey_data(annual_data)\<close>. The source names \<^verbatim>\<open>expenses\<close> without binding
  it; it is read as \<^verbatim>\<open>annual_data['expenses']\<close>. The six revenue values are the actuals
  in the order of the labels. Nothing is printed or logged, and the result has the four
  keys only.
\<close>

definition calculate_sankey_data :: "annual_data \<Rightarrow> sankey_data" where
  "calculate_sankey_data a =
     (let rv = revenue a;
          ex = expenses a;
          payroll_total = actual (salaries_wages ex) + actual (payroll_taxes ex) + actual (benefits ex);
          operations_total = actual (expenses_total ex) - payroll_total
      in \<lparr> labels = [''Contributions'', ''Grants'', ''Earned Revenue'', ''Events'',
                      ''Sponsorships'', ''Other'', ''Organization'', ''Payroll'', ''Operations''],
           sources = [0, 1, 2, 3, 4, 5] @ [6, 6],
           targets = [6, 6, 6, 6, 6, 6] @ [7, 8],
           edge_values = [actual (contributions rv), actual (grants rv), actual (earned_revenue rv),
                          actual (fundraising_events rv), actual (sponsorships rv), actual (other rv)]
                         @ [payroll_total, operations_total] \<rparr>)"

text \<open>The same split on the expense page: \<^verbatim>\<open>payrollTotal\<close> and \<^verbatim>\<open>operationsTotal\<close>.\<close>

definition payrollTotal :: "expenses \<Rightarrow> real" where
  "payrollTotal ex = actual (salaries_wages ex) + actual (payroll_taxes ex) + actual (benefits ex)"

definition operationsTotal :: "expenses \<Rightarrow> real" where
  "operationsTotal ex = actual (expenses_total ex) - payrollTotal ex"

text \<open>
  Reading the graph: the edges as triples, the value flowing into and out of a node, and
  the relative tolerance of \<open>10\<^sup>-\<^sup>6\<close> the invariants are stated with. The hub is the
  node labelled Organization, index 6.
\<close>

definition edges :: "sankey_data \<Rightarrow> (nat \<times> nat \<times> real) list" where
  "edges sd = zip (sources sd) (zip (targets sd) (edge_values sd))"

definition inflow :: "sankey_data \<Rightarrow> nat \<Rightarrow> real" where
  "inflow sd n = sum_list (map (\<lambda>(s, t, v). v) (filter (\<lambda>(s, t, v). t = n) (edges sd)))"

definition outflow :: "sankey_data \<Rightarrow> nat \<Rightarrow> real" where
  "outflow sd n = sum_list (map (\<lambda>(s, t, v). v) (filter (\<lambda>(s, t, v). s = n) (edges sd)))"

definition hub :: nat where
  "hub = 6"

definition within_tol :: "real \<Rightarrow> real \<Rightarrow> bool" where
  "within_tol x y = (\<bar>x - y\<bar> \<le> max \<bar>x\<bar> \<bar>y\<bar> / 1000000)"

section \<open>Loading and the run\<close>

text \<open>
  A table is what \<^verbatim>\<open>pd.read_csv\<close> returns, the rows below the header; the data
  directory maps a file name to its table. With its default settings \<^verbatim>\<open>read_csv\<close>
  reads an empty field and the strings it takes for missing (among them \<^verbatim>\<open>N/A\<close>,
  \<^verbatim>\<open>n/a\<close>, \<^verbatim>\<open>NA\<close>, \<^verbatim>\<open>#N/A\<close>, \<^verbatim>\<open>NULL\<close> and \<^verbatim>\<open>nan\<close>) as NaN, so a table
  holds none of them as a string. \<^verbatim>\<open>df.iloc[r, c]\<close> with two non-negative positions
  raises IndexError outside the frame.
\<close>

type_synonym table = "pyval list list"

definition read_csv :: "(string \<rightharpoonup> table) \<Rightarrow> string \<Rightarrow> exn + table" where
  "read_csv fs file_path =
     (case fs file_path of None \<Rightarrow> Inl (FileNotFoundError file_path) | Some df \<Rightarrow> Inr df)"

definition iloc :: "table \<Rightarrow> nat \<Rightarrow> nat \<Rightarrow> exn + pyval" where
  "iloc df r c = (if r < length df \<and> c < length (df ! r) then Inr (df ! r ! c) else Inl IndexError)"

text \<open>An exception raised in a step skips the steps after it.\<close>

definition and_then :: "exn + 'a \<Rightarrow> ('a \<Rightarrow> exn + 'b) \<Rightarrow> exn + 'b" where
  "and_then r f = (case r of Inl e \<Rightarrow> Inl e | Inr x \<Rightarrow> f x)"

text \<open>
  \<^verbatim>\<open>load_summary_data()\<close> as far as the source gives it: the two income series of the
  loop over the columns 2 to 12, row 17 before row 18 in each column. The other
  categories, \<^verbatim>\<open>expense_trends\<close> and \<^verbatim>\<open>financial_health\<close> are elided in the source
  and left out here. There is no \<^verbatim>\<open>try\<close> in the function.
\<close>

record income_trends =
  years :: "string list"
  program_revenue :: "double list"
  individual_donors :: "double list"

definition summary_csv :: string where
  "summary_csv = ''Updated WW Long term financial planning FY19-FY25 - Summary.csv''"

text \<open>The expression \<^verbatim>\<open>clean_currency(df.iloc[r, c])\<close> of the loop.\<close>

definition cell_number :: "table \<Rightarrow> nat \<Rightarrow> nat \<Rightarrow> exn + double" where
  "cell_number df r c = and_then (iloc df r c) clean_currency"

fun summary_loop :: "table \<Rightarrow> nat list \<Rightarrow> income_trends \<Rightarrow> exn + income_trends" where
  "summary_loop df [] it = Inr it"
| "summary_loop df (col_idx # cols) it =
     and_then (cell_number df 17 col_idx) (\<lambda>v17.
     and_then (cell_number df 18 col_idx) (\<lambda>v18.
       summary_loop df cols
         (it\<lparr> program_revenue := program_revenue it @ [v17],
              individual_donors := individual_donors it @ [v18] \<rparr>)))"

definition load_summary_data :: "(string \<rightharpoonup> table) \<Rightarrow> exn + income_trends" where
  "load_summary_data fs =
     and_then (read_csv fs summary_csv) (\<lambda>df.
       summary_loop df [2 ..< 13]
         \<lparr> years = [''FY19'', ''FY20'', ''FY21'', ''FY22'', ''FY23'', ''FY24'', ''FY25'',
                    ''FY26'', ''FY27'', ''FY28'', ''FY29''],
           program_revenue = [], individual_donors = [] \<rparr>)"

text \<open>
  The dictionary \<^verbatim>\<open>executive_summary\<close> of \<^verbatim>\<open>main\<close>, with the entries the source spells
  out (the arguments of the variance entries are elided there). The fields carry the
  prefix \<open>es\<close>, their keys being names of the records above. \<^verbatim>\<open>months\<close> is read as
  \<^verbatim>\<open>annual_data['reserves']['months_reserve']\<close>.
\<close>

record executive_summary =
  es_current_reserves :: real
  es_months_in_reserve :: real
  es_reserve_health :: string
  es_ytd_revenue :: real

definition make_executive_summary :: "annual_data \<Rightarrow> executive_summary" where
  "make_executive_summary a =
     \<lparr> es_current_reserves = current_reserves (reserves a),
       es_months_in_reserve = months_reserve (reserves a),
       es_reserve_health = reserve_health (months_reserve (reserves a)),
       es_ytd_revenue = actual (revenue_total (revenue a)) \<rparr>"

text \<open>
  What \<^verbatim>\<open>json.dump\<close> writes into each of the seven files, and the state a run acts on:
  whether the output directory exists and the records written, in order. The program and
  cash flow records come from loaders the source only names; their types are parameters.
  What a run prints is left out: the listing of \<^verbatim>\<open>main\<close> shows its first and its last
  \<^verbatim>\<open>print\<close> only, and the expected output of the source has progress lines between them.
\<close>

datatype ('p, 'c) payload =
    ExecutiveSummary executive_summary
  | HistoricalTrends income_trends
  | RevenueData revenue
  | ExpenseData expenses
  | ProgramData 'p
  | CashflowData 'c
  | SankeyData sankey_data

record ('p, 'c) world =
  out_dir :: bool
  written :: "(string \<times> ('p, 'c) payload) list"

text \<open>
  The seven records in the order of the files the source lists; it shows the first
  \<^verbatim>\<open>with open(...) as f: json.dump(...)\<close> and elides the other six.
\<close>

definition output_records ::
  "income_trends \<Rightarrow> annual_data \<Rightarrow> 'p \<Rightarrow> 'c \<Rightarrow> (string \<times> ('p, 'c) payload) list" where
  "output_records summary_data a program_data cashflow_data =
     [(''executive_summary.json'', ExecutiveSummary (make_executive_summary a)),
      (''historical_trends.json'', HistoricalTrends summary_data),
      (''revenue_data.json'', RevenueData (revenue a)),
      (''expense_data.json'', ExpenseData (expenses a)),
      (''program_data.json'', ProgramData program_data),
      (''cashflow_data.json'', CashflowData cashflow_data),
      (''sankey_data.json'', SankeyData (calculate_sankey_data a))]"

text \<open>
  The files are written one after the other, each by \<^verbatim>\<open>open\<close> and \<^verbatim>\<open>json.dump\<close>.
  Either call can raise (the file cannot be opened, an object does not serialise), and
  nothing in the listing decides whether it does, so this is a parameter of the run:
  \<open>save_raises name obj\<close> is the exception that writing \<open>obj\<close> to the file \<open>name\<close>
  raises, if any. A raise ends the run there: the records before it stay written, the
  file at hand does not count as a written record, and the files after it are not reached.
\<close>

fun save_records ::
  "(string \<Rightarrow> ('p, 'c) payload \<Rightarrow> exn option) \<Rightarrow> (string \<times> ('p, 'c) payload) list \<Rightarrow>
   ('p, 'c) world \<Rightarrow> (exn + unit) \<times> ('p, 'c) world" where
  "save_records save_raises [] w = (Inr (), w)"
| "save_records save_raises ((name, obj) # rest) w =
     (case save_raises name obj of
        Some e \<Rightarrow> (Inl e, w)
      | None \<Rightarrow> save_records save_raises rest (w\<lparr> written := written w @ [(name, obj)] \<rparr>))"

text \<open>
  \<^verbatim>\<open>main()\<close>. The loaders \<^verbatim>\<open>load_fy26_annual_data\<close>, \<^verbatim>\<open>load_program_data\<close> and
  \<^verbatim>\<open>load_monthly_cashflow\<close> are named but not given in the source, so they are
  parameters: each reads the data directory and returns its record or raises, and none
  of them writes an output record. The output directory is made first (\<^verbatim>\<open>mkdir\<close> with
  \<^verbatim>\<open>exist_ok\<close> is taken to succeed). All loading and deriving stands before the first
  \<^verbatim>\<open>open\<close>.
\<close>

definition main ::
  "((string \<rightharpoonup> table) \<Rightarrow> exn + annual_data) \<Rightarrow> ((string \<rightharpoonup> table) \<Rightarrow> exn + 'p) \<Rightarrow>
   ((string \<rightharpoonup> table) \<Rightarrow> exn + 'c) \<Rightarrow> (string \<Rightarrow> ('p, 'c) payload \<Rightarrow> exn option) \<Rightarrow>
   (string \<rightharpoonup> table) \<Rightarrow> ('p, 'c) world \<Rightarrow> (exn + unit) \<times> ('p, 'c) world" where
  "main load_fy26_annual_data load_program_data load_monthly_cashflow save_raises fs w0 =
     (let w1 = w0\<lparr> out_dir := True \<rparr>
      in case load_summary_data fs of Inl e \<Rightarrow> (Inl e, w1) | Inr summary_data \<Rightarrow>
         (case load_fy26_annual_data fs of Inl e \<Rightarrow> (Inl e, w1) | Inr a \<Rightarrow>
         (case load_program_data fs of Inl e \<Rightarrow> (Inl e, w1) | Inr program_data \<Rightarrow>
         (case load_monthly_cashflow fs of Inl e \<Rightarrow> (Inl e, w1) | Inr cashflow_data \<Rightarrow>
            save_records save_raises
              (output_records summary_data a program_data cashflow_data) w1))))"

section \<open>Totals of the category records\<close>

text \<open>
  Modelled from the spec: the aggregation that gives \<^verbatim>\<open>revenue_data\<close> and
  \<^verbatim>\<open>expense_data\<close> their \<^verbatim>\<open>total\<close> entry. The loader that builds these records
  (\<^verbatim>\<open>load_fy26_annual_data\<close>) is named in the source and not given. By the data model
  of the specification the total is derived from its constituent categories, its
  \<^verbatim>\<open>actual\<close> and \<^verbatim>\<open>budgeted\<close> being the sums of theirs, and the agreement of the total
  with the categories is checked after the aggregation, within the relative tolerance.
\<close>

definition derive_total :: "category list \<Rightarrow> category" where
  "derive_total cs =
     foldl (\<lambda>t c. \<lparr> actual = actual t + actual c, budgeted = budgeted t + budgeted c \<rparr>)
       \<lparr> actual = 0, budgeted = 0 \<rparr> cs"

definition total_consistent :: "category list \<Rightarrow> category \<Rightarrow> bool" where
  "total_consistent cs t =
     (within_tol (actual t) (sum_list (map actual cs)) \<and>
      within_tol (budgeted t) (sum_list (map budgeted cs)))"

datatype aggregation_error = TotalMismatch

definition aggregate :: "category list \<Rightarrow> aggregation_error + category list \<times> category" where
  "aggregate cs =
     (let t = derive_total cs in if total_consistent cs t then Inr (cs, t) else Inl TotalMismatch)"

section \<open>Sample inputs\<close>

text \<open>
  A loader that returns a given record; an environment in which no write raises and one
  in which the file of the revenue record cannot be opened; a summary table whose cell
  at row 17, column 2 is chosen freely, and a data directory that holds this table only;
  annual data with 50000 of grants and a chosen total expense; the state before a first
  run and a state in which an earlier run has left a record. \<open>set_cell\<close> replaces one
  cell of a table.
\<close>

definition const_loader :: "'a \<Rightarrow> (string \<rightharpoonup> table) \<Rightarrow> exn + 'a" where
  "const_loader x fs = Inr x"

definition never_raises :: "string \<Rightarrow> ('p, 'c) payload \<Rightarrow> exn option" where
  "never_raises name obj = None"


definition summary_table :: "pyval \<Rightarrow> table" where
  "summary_table cell =
     replicate 17 (replicate 13 (PFloat NaN))
     @ [[PStr ''Program Revenue'', PFloat NaN, cell] @ replicate 10 (PFloat (Finite 1000)),
        [PStr ''Individual Donors'', PFloat NaN] @ replicate 11 (PFloat (Finite 250))]"

definition data_dir :: "pyval \<Rightarrow> (string \<rightharpoonup> table)" where
  "data_dir cell = [summary_csv \<mapsto> summary_table cell]"

definition set_cell :: "table \<Rightarrow> nat \<Rightarrow> nat \<Rightarrow> pyval \<Rightarrow> table" where
  "set_cell df r c v = df[r := (df ! r)[c := v]]"

definition sample_years :: "string list" where
  "sample_years = [''FY19'', ''FY20'', ''FY21'', ''FY22'', ''FY23'', ''FY24'', ''FY25'',
                   ''FY26'', ''FY27'', ''FY28'', ''FY29'']"

definition sample_trends :: "double \<Rightarrow> income_trends" where
  "sample_trends x =
     \<lparr> years = sample_years, program_revenue = x # replicate 10 (Finite 1000),
       individual_donors = replicate 11 (Finite 250) \<rparr>"

definition cat :: "real \<Rightarrow> real \<Rightarrow> category" where
  "cat a b = \<lparr> actual = a, budgeted = b \<rparr>"

definition sample_annual :: "real \<Rightarrow> annual_data" where
  "sample_annual expense_actual =
     \<lparr> revenue = \<lparr> contributions = cat 0 0, grants = cat 50000 45000, earned_revenue = cat 0 0,
                   fundraising_events = cat 0 0, sponsorships = cat 0 0, other = cat 0 0,
                   revenue_total = cat 50000 45000 \<rparr>,
       expenses = \<lparr> salaries_wages = cat 20000 20000, payroll_taxes = cat 2000 2000,
                    benefits = cat 3000 3000, expenses_total = cat expense_actual 30000 \<rparr>,
       reserves = \<lparr> current_reserves = 90000, months_reserve = 3 \<rparr> \<rparr>"

definition fresh_world :: "(unit, unit) world" where
  "fresh_world = \<lparr> out_dir = False, written = [] \<rparr>"

definition earlier_world :: "(unit, unit) world" where
  "earlier_world =
     \<lparr> out_dir = True,
       written = [(''sankey_data.json'', SankeyData (calculate_sankey_data (sample_annual 30000)))] \<rparr>"

section \<open>Facts about the helpers\<close>

lemma safe_divide_zero: "safe_divide n 0 = 0"
  by (simp add: safe_divide_def)

lemma safe_divide_nonzero: "d \<noteq> 0 \<Longrightarrow> safe_divide n d = n / d"
  by (simp add: safe_divide_def)

lemma calculateVariance_nonzero:
  "b \<noteq> 0 \<Longrightarrow> calculateVariance a b = Finite ((a - b) / b * 100)"
  by (simp add: calculateVariance_def)

lemma calculateVariance_sample: "calculateVariance 110 100 = Finite 10"
  by (simp add: calculateVariance_def)

subsection \<open>Digits and the float grammar\<close>

lemma digit_chars:
  assumes "is_digit c"
  shows "c \<noteq> CHR ''$''" "c \<noteq> CHR '',''" "\<not> py_isspace c" "\<not> float_isspace c"
  using assms by (auto simp: is_digit_def py_isspace_def float_isspace_def Let_def)

lemma strip_chars_id:
  assumes "s \<noteq> []" "\<not> sp (hd s)" "\<not> sp (last s)"
  shows "strip_chars sp s = s"
proof -
  have at_front: "dropWhile sp s = s" using assms by (cases s) auto
  have at_back: "dropWhile sp (rev s) = rev s" using assms by (cases s rule: rev_cases) auto
  show ?thesis by (simp add: strip_chars_def at_front at_back)
qed

lemma digit_tail_digits:
  "list_all is_digit ds \<Longrightarrow> r = [] \<or> (\<not> is_digit (hd r) \<and> hd r \<noteq> CHR ''_'') \<Longrightarrow>
   digit_tail (ds @ r) = (ds, r)"
proof (induction ds)
  case Nil
  then show ?case by (cases r rule: digit_tail.cases) auto
next
  case (Cons x ds)
  then show ?case by (cases "ds @ r") auto
qed

lemma digitpart_digits:
  "list_all is_digit ds \<Longrightarrow> ds \<noteq> [] \<Longrightarrow> r = [] \<or> (\<not> is_digit (hd r) \<and> hd r \<noteq> CHR ''_'') \<Longrightarrow>
   digitpart (ds @ r) = Some (ds, r)"
  by (cases ds) (auto simp: digitpart_def digit_tail_digits)

lemma digit_not_sign:
  "is_digit c \<Longrightarrow> \<not> startswith (c # t) ''-'' \<and> \<not> startswith (c # t) ''+''"
  by (auto simp: startswith_def is_digit_def)

lemma digit_not_inf_nan:
  "is_digit c \<Longrightarrow>
   map to_lower (c # t) \<noteq> ''inf'' \<and> map to_lower (c # t) \<noteq> ''infinity'' \<and>
   map to_lower (c # t) \<noteq> ''nan''"
  by (auto simp: is_digit_def to_lower_def Let_def)

lemma float_str_digit_first:
  assumes "is_digit c" and "\<not> float_isspace (last (c # t))"
  shows "float_str (c # t) =
    (case number (c # t) of
       None \<Rightarrow> None
     | Some (m, r) \<Rightarrow> (case exponent r of None \<Rightarrow> None | Some e \<Rightarrow> Some (Finite (scale m e))))"
proof -
  have strip: "strip_chars float_isspace (c # t) = c # t"
    using assms by (intro strip_chars_id) (auto dest: digit_chars(4))
  show ?thesis
    unfolding float_str_def strip Let_def
    using digit_not_sign [OF assms(1), of t] digit_not_inf_nan [OF assms(1), of t]
    by (simp split: option.splits)
qed

lemma last_digits:
  "list_all is_digit fs \<Longrightarrow> fs \<noteq> [] \<Longrightarrow> is_digit (last (xs @ fs))"
  by (cases fs rule: rev_cases) auto

lemma float_str_decimal:
  assumes "list_all is_digit ds" "ds \<noteq> []" "list_all is_digit fs" "fs \<noteq> []"
  shows "float_str (ds @ CHR ''.'' # fs) = Some (Finite (mantissa ds fs))"
proof -
  obtain c t where ds: "ds = c # t" using assms(2) by (cases ds) auto
  have c: "is_digit c" using assms(1) ds by simp
  have "is_digit (last (c # t @ CHR ''.'' # fs))"
    using last_digits [OF assms(3,4), of "c # t @ [CHR ''.'']"] by simp
  then have lst: "\<not> float_isspace (last (c # t @ CHR ''.'' # fs))"
    by (rule digit_chars(4))
  have dp: "digitpart (ds @ CHR ''.'' # fs) = Some (ds, CHR ''.'' # fs)"
    using assms by (intro digitpart_digits) (auto simp: is_digit_def)
  have dp2: "digitpart fs = Some (fs, [])"
    using digitpart_digits [of fs "[]"] assms by simp
  have num: "number (ds @ CHR ''.'' # fs) = Some (mantissa ds fs, [])"
    by (simp add: number_def dp dp2)
  show ?thesis
    using float_str_digit_first [OF c lst] num
    by (simp add: ds exponent_def scale_def)
qed

lemma float_str_whole:
  assumes "list_all is_digit ds" "ds \<noteq> []"
  shows "float_str ds = Some (Finite (real (digits_val ds)))"
proof -
  obtain c t where ds: "ds = c # t" using assms(2) by (cases ds) auto
  have c: "is_digit c" using assms(1) ds by simp
  have "is_digit (last (c # t))"
    using last_digits [OF assms, of "[]"] ds by simp
  then have lst: "\<not> float_isspace (last (c # t))"
    by (rule digit_chars(4))
  have dp: "digitpart ds = Some (ds, [])"
    using digitpart_digits [of ds "[]"] assms by simp
  have num: "number ds = Some (real (digits_val ds), [])"
    by (simp add: number_def dp mantissa_def digits_val_def)
  show ?thesis
    using float_str_digit_first [OF c lst] num
    by (simp add: ds exponent_def scale_def)
qed

lemma not_a_number:
  "float_str ''n/a'' = None" "float_str ''$ n/a'' = None" "float_str ''(1234)'' = None"
  "float_str ''(1,234)'' = None" "float_str ''tbd'' = None"
  by (simp_all add: float_str_def strip_chars_def float_isspace_def startswith_def to_lower_def
      number_def digitpart_def is_digit_def)

subsection \<open>Currency strings\<close>

lemma grouped_no_dollar:
  "list_all is_digit (filter (\<lambda>c. c \<noteq> CHR '','') body) \<Longrightarrow>
   filter (\<lambda>c. c \<noteq> CHR ''$'') body = body"
  by (induction body) (auto dest: digit_chars(1) split: if_splits)

lemma digits_no_dollar: "list_all is_digit fs \<Longrightarrow> filter (\<lambda>c. c \<noteq> CHR ''$'') fs = fs"
  by (induction fs) (auto dest: digit_chars(1))

lemma digits_no_comma: "list_all is_digit fs \<Longrightarrow> filter (\<lambda>c. c \<noteq> CHR '','') fs = fs"
  by (induction fs) (auto dest: digit_chars(2))

lemma clean_currency_nonempty:
  assumes "py_strip (replace_char_empty CHR '','' (replace_char_empty CHR ''$'' (c # s))) = t"
    and "c \<noteq> CHR ''#''" and "t \<noteq> []"
  shows "clean_currency (PStr (c # s)) = float_of_str t"
  using assms by (simp add: clean_currency_def startswith_def Let_def)

lemma py_strip_digits:
  assumes "is_digit (hd t)" "is_digit (last t)" "t \<noteq> []"
  shows "py_strip t = t"
  unfolding py_strip_def using assms by (intro strip_chars_id) (auto dest: digit_chars(3))

lemma clean_currency_decimal:
  assumes "list_all is_digit (filter (\<lambda>c. c \<noteq> CHR '','') body)"
    and "filter (\<lambda>c. c \<noteq> CHR '','') body \<noteq> []"
    and "list_all is_digit fs" "fs \<noteq> []"
  shows "clean_currency (PStr (CHR ''$'' # body @ CHR ''.'' # fs)) =
           Inr (Finite (mantissa (filter (\<lambda>c. c \<noteq> CHR '','') body) fs))"
proof -
  define ds where "ds = filter (\<lambda>c. c \<noteq> CHR '','') body"
  have dsd: "list_all is_digit ds" "ds \<noteq> []" using assms by (simp_all add: ds_def)
  have "replace_char_empty CHR ''$'' (CHR ''$'' # body @ CHR ''.'' # fs) = body @ CHR ''.'' # fs"
    using assms by (simp add: replace_char_empty_def grouped_no_dollar digits_no_dollar)
  then have c1:
    "replace_char_empty CHR '','' (replace_char_empty CHR ''$'' (CHR ''$'' # body @ CHR ''.'' # fs))
       = ds @ CHR ''.'' # fs"
    using assms by (simp add: replace_char_empty_def digits_no_comma ds_def)
  have hd: "is_digit (hd (ds @ CHR ''.'' # fs))" using dsd by (cases ds) auto
  have lst: "is_digit (last (ds @ CHR ''.'' # fs))"
    using last_digits [OF assms(3,4), of "ds @ [CHR ''.'']"] by simp
  have s1: "py_strip (ds @ CHR ''.'' # fs) = ds @ CHR ''.'' # fs"
    using hd lst by (intro py_strip_digits) auto
  have "clean_currency (PStr (CHR ''$'' # body @ CHR ''.'' # fs)) = float_of_str (ds @ CHR ''.'' # fs)"
    by (rule clean_currency_nonempty) (simp_all only: c1 s1, simp_all)
  then show ?thesis
    using float_str_decimal [OF dsd assms(3,4)] by (simp add: float_of_str_def ds_def)
qed

lemma clean_currency_whole:
  assumes "list_all is_digit (filter (\<lambda>c. c \<noteq> CHR '','') body)"
    and "filter (\<lambda>c. c \<noteq> CHR '','') body \<noteq> []"
  shows "clean_currency (PStr (CHR ''$'' # body)) =
           Inr (Finite (real (digits_val (filter (\<lambda>c. c \<noteq> CHR '','') body))))"
proof -
  define ds where "ds = filter (\<lambda>c. c \<noteq> CHR '','') body"
  have dsd: "list_all is_digit ds" "ds \<noteq> []" using assms by (simp_all add: ds_def)
  have "replace_char_empty CHR ''$'' (CHR ''$'' # body) = body"
    using assms by (simp add: replace_char_empty_def grouped_no_dollar)
  then have c1: "replace_char_empty CHR '','' (replace_char_empty CHR ''$'' (CHR ''$'' # body)) = ds"
    by (simp add: replace_char_empty_def ds_def)
  have hd: "is_digit (hd ds)" using dsd by (cases ds) auto
  have lst: "is_digit (last ds)" using last_digits [OF dsd, of "[]"] by simp
  have s1: "py_strip ds = ds"
    using hd lst dsd by (intro py_strip_digits) auto
  have "clean_currency (PStr (CHR ''$'' # body)) = float_of_str ds"
    by (rule clean_currency_nonempty) (simp_all only: c1 s1, simp_all add: dsd)
  then show ?thesis
    using float_str_whole [OF dsd] by (simp add: float_of_str_def ds_def)
qed

lemma clean_currency_string:
  "\<not> startswith s ''#'' \<Longrightarrow>
   clean_currency (PStr s) =
     (let cleaned = py_strip (filter (\<lambda>c. c \<noteq> CHR ''$'' \<and> c \<noteq> CHR '','') s)
      in if cleaned = [] then Inr (Finite 0) else float_of_str cleaned)"
  by (auto simp: clean_currency_def replace_char_empty_def py_strip_def strip_chars_def Let_def
      conj_commute)

text \<open>
  What \<open>clean_currency\<close> does on the values of Python's own types: 0 for a missing value
  (\<open>None\<close> or NaN); a float unchanged and an integer within the range of a double as
  that number; for a string that does not begin with \<open>#\<close>, every \<open>$\<close> and every comma
  removed, the white space around the rest stripped, 0 when nothing is left and otherwise
  what \<open>float\<close> makes of the rest. In particular a dollar sign followed by digits
  grouped by commas, with or without a decimal point and decimals, yields the number the
  digits denote.
\<close>

lemma clean_currency_contract:
  "clean_currency PNone = Inr (Finite 0) \<and>
   clean_currency (PFloat NaN) = Inr (Finite 0) \<and>
   (d \<noteq> NaN \<longrightarrow> clean_currency (PFloat d) = Inr d) \<and>
   (\<bar>n\<bar> < 2 ^ 1024 - 2 ^ 970 \<longrightarrow> clean_currency (PInt n) = Inr (Finite (of_int n))) \<and>
   (\<not> startswith s ''#'' \<longrightarrow>
      clean_currency (PStr s) =
        (let cleaned = py_strip (filter (\<lambda>c. c \<noteq> CHR ''$'' \<and> c \<noteq> CHR '','') s)
         in if cleaned = [] then Inr (Finite 0) else float_of_str cleaned)) \<and>
   (list_all is_digit (filter (\<lambda>c. c \<noteq> CHR '','') body) \<and>
    filter (\<lambda>c. c \<noteq> CHR '','') body \<noteq> [] \<longrightarrow>
      clean_currency (PStr (CHR ''$'' # body)) =
        Inr (Finite (real (digits_val (filter (\<lambda>c. c \<noteq> CHR '','') body)))) \<and>
      (list_all is_digit fs \<and> fs \<noteq> [] \<longrightarrow>
         clean_currency (PStr (CHR ''$'' # body @ CHR ''.'' # fs)) =
           Inr (Finite (mantissa (filter (\<lambda>c. c \<noteq> CHR '','') body) fs))))"
proof -
  have missing: "clean_currency PNone = Inr (Finite 0)" "clean_currency (PFloat NaN) = Inr (Finite 0)"
    by (simp_all add: clean_currency_def)
  have float: "d \<noteq> NaN \<longrightarrow> clean_currency (PFloat d) = Inr d"
    by (cases d) (simp_all add: clean_currency_def)
  have int: "\<bar>n\<bar> < 2 ^ 1024 - 2 ^ 970 \<longrightarrow> clean_currency (PInt n) = Inr (Finite (of_int n))"
    by (simp add: clean_currency_def float_of_int_def)
  show ?thesis
    using missing float int clean_currency_string [of s] clean_currency_whole [of body]
      clean_currency_decimal [of body fs]
    by blast
qed

lemma clean_currency_samples:
  "clean_currency (PFloat (Finite 12.5)) = Inr (Finite 12.5) \<and>
   clean_currency (PInt 42) = Inr (Finite 42) \<and>
   clean_currency (PStr '' $ 7 '') = Inr (Finite 7) \<and>
   clean_currency (PStr ''$1,234'') = Inr (Finite 1234) \<and>
   clean_currency (PStr ''$1,234.56'') = Inr (Finite 1234.56)"
proof -
  have digits: "list_all is_digit (filter (\<lambda>c. c \<noteq> CHR '','') ''1,234'')"
    "filter (\<lambda>c. c \<noteq> CHR '','') ''1,234'' \<noteq> []" "list_all is_digit ''56''" "''56'' \<noteq> []"
    by (simp_all add: is_digit_def)
  have denoted: "real (digits_val ''1234'') = 1234" "mantissa ''1234'' ''56'' = 1234.56"
    by (simp_all add: mantissa_def digits_val_def digit_val_def)
  have seven: "\<not> startswith '' $ 7 '' ''#''"
    "py_strip (filter (\<lambda>c. c \<noteq> CHR ''$'' \<and> c \<noteq> CHR '','') '' $ 7 '') = ''7''"
    "float_of_str ''7'' = Inr (Finite 7)"
    using float_str_whole [of "''7''"]
    by (simp_all add: startswith_def py_strip_def strip_chars_def py_isspace_def float_of_str_def
        is_digit_def digits_val_def digit_val_def)
  show ?thesis
    using clean_currency_contract [of "Finite 12.5" 42 "'' $ 7 ''" "''1,234''" "''56''"]
      digits denoted seven
    by simp
qed

subsection \<open>The flow at the hub and the run\<close>

lemma inflow_hub:
  "inflow (calculate_sankey_data a) hub =
     actual (contributions (revenue a)) + actual (grants (revenue a)) +
     actual (earned_revenue (revenue a)) + actual (fundraising_events (revenue a)) +
     actual (sponsorships (revenue a)) + actual (other (revenue a))"
  by (simp add: inflow_def edges_def calculate_sankey_data_def hub_def Let_def)

lemma outflow_hub:
  "outflow (calculate_sankey_data a) hub = actual (expenses_total (expenses a))"
  by (simp add: outflow_def edges_def calculate_sankey_data_def hub_def Let_def)

lemma save_records_all:
  "(\<forall>(n, obj) \<in> set recs. sv n obj = None) \<Longrightarrow>
   save_records sv recs w = (Inr (), w\<lparr> written := written w @ recs \<rparr>)"
  by (induction recs arbitrary: w) auto



lemma main_raises:
  "load_summary_data fs = Inl e \<Longrightarrow> main la lp lc sv fs w = (Inl e, w\<lparr> out_dir := True \<rparr>)"
  by (simp add: main_def Let_def)


lemma main_saves:
  "load_summary_data fs = Inr s \<Longrightarrow> la fs = Inr a \<Longrightarrow> lp fs = Inr p \<Longrightarrow> lc fs = Inr c \<Longrightarrow>
   main la lp lc sv fs w = save_records sv (output_records s a p c) (w\<lparr> out_dir := True \<rparr>)"
  by (simp add: main_def Let_def)




lemma cell_number_set_cell:
  assumes "r < length df" "c < length (df ! r)" "clean_currency v = clean_currency (df ! r ! c)"
  shows "cell_number (set_cell df r c v) r' c' = cell_number df r' c'"
proof (cases "r' = r")
  case True
  show ?thesis
  proof (cases "c' = c")
    case True
    then show ?thesis
      using assms \<open>r' = r\<close> by (simp add: cell_number_def iloc_def set_cell_def and_then_def)
  next
    case False
    then show ?thesis
      using assms \<open>r' = r\<close> by (simp add: cell_number_def iloc_def set_cell_def and_then_def)
  qed
next
  case False
  then show ?thesis
    using assms by (simp add: cell_number_def iloc_def set_cell_def and_then_def)
qed

lemma summary_loop_cells:
  assumes "\<And>r c. cell_number df r c = cell_number df' r c"
  shows "summary_loop df cols it = summary_loop df' cols it"
  by (induction cols arbitrary: it) (simp_all add: assms)

lemma load_summary_data_set_cell:
  assumes "r < length df" "c < length (df ! r)" "clean_currency v = clean_currency (df ! r ! c)"
  shows "load_summary_data (fs(summary_csv \<mapsto> set_cell df r c v)) =
         load_summary_data (fs(summary_csv \<mapsto> df))"
proof -
  have same: "summary_loop (set_cell df r c v) cols it = summary_loop df cols it" for cols it
    by (rule summary_loop_cells) (rule cell_number_set_cell [OF assms])
  show ?thesis
    unfolding load_summary_data_def read_csv_def and_then_def
    by (simp only: fun_upd_same option.case sum.case same)
qed

lemma sample_summary_loads:
  "clean_currency cell = Inr x \<Longrightarrow> load_summary_data (data_dir cell) = Inr (sample_trends x)"
  by (simp add: load_summary_data_def data_dir_def read_csv_def summary_table_def and_then_def
      cell_number_def iloc_def nth_append sample_years_def sample_trends_def
      upt_rec [of 2] upt_rec [of 3] upt_rec [of 4]
      upt_rec [of 5] upt_rec [of 6] upt_rec [of 7] upt_rec [of 8] upt_rec [of 9] upt_rec [of 10]
      upt_rec [of 11] upt_rec [of 12] upt_rec [of 13] clean_currency_def numeral_eq_Suc)

lemma sample_summary_raises:
  "clean_currency cell = Inl e \<Longrightarrow> load_summary_data (data_dir cell) = Inl e"
  by (simp add: load_summary_data_def data_dir_def read_csv_def summary_table_def and_then_def
      cell_number_def iloc_def nth_append upt_rec [of 2])

lemma never_raises_all: "\<forall>(n, obj) \<in> set recs. never_raises n obj = None"
  by (simp add: never_raises_def split: prod.splits)

lemma sample_run:
  assumes "clean_currency cell = Inr x"
  shows "main (const_loader a) (const_loader ()) (const_loader ()) never_raises (data_dir cell) w =
     (Inr (), w\<lparr> out_dir := True, written := written w @ output_records (sample_trends x) a () () \<rparr>)"
proof -
  have "main (const_loader a) (const_loader ()) (const_loader ()) never_raises (data_dir cell) w =
      save_records never_raises (output_records (sample_trends x) a () ()) (w\<lparr> out_dir := True \<rparr>)"
    by (rule main_saves) (simp_all add: sample_summary_loads [OF assms] const_loader_def)
  then show ?thesis
    by (simp add: save_records_all [OF never_raises_all])
qed

subsection \<open>The derived total\<close>

lemma derive_total_fold:
  "foldl (\<lambda>t c. \<lparr> actual = actual t + actual c, budgeted = budgeted t + budgeted c \<rparr>) t0 cs =
     \<lparr> actual = actual t0 + sum_list (map actual cs),
       budgeted = budgeted t0 + sum_list (map budgeted cs) \<rparr>"
  by (induction cs arbitrary: t0) (simp_all add: add.assoc)

section \<open>The claims\<close>

text \<open>
  C1, as amended: at the hub the inflow is the sum of the six revenue actuals and the
  outflow, payroll plus operations, is the total expense actual. The two differ by the
  revenue left after the expenses, so the hub conserves value exactly when the six
  revenue actuals add up to the total expense actual.
\<close>

theorem hub_flows:
  "inflow (calculate_sankey_data a) hub =
     actual (contributions (revenue a)) + actual (grants (revenue a)) +
     actual (earned_revenue (revenue a)) + actual (fundraising_events (revenue a)) +
     actual (sponsorships (revenue a)) + actual (other (revenue a)) \<and>
   outflow (calculate_sankey_data a) hub = actual (expenses_total (expenses a)) \<and>
   within_tol (inflow (calculate_sankey_data a) hub) (outflow (calculate_sankey_data a) hub) =
     within_tol
       (actual (contributions (revenue a)) + actual (grants (revenue a)) +
        actual (earned_revenue (revenue a)) + actual (fundraising_events (revenue a)) +
        actual (sponsorships (revenue a)) + actual (other (revenue a)))
       (actual (expenses_total (expenses a)))"
  by (simp only: inflow_hub outflow_hub)

text \<open>
  C1 as stated fails: with 50000 of grants and 30000 of expenses, 50000 flows into the
  hub and 30000 flows out.
\<close>

theorem hub_conservation_counterexample:
  "inflow (calculate_sankey_data (sample_annual 30000)) hub = 50000 \<and>
   outflow (calculate_sankey_data (sample_annual 30000)) hub = 30000 \<and>
   \<not> within_tol (inflow (calculate_sankey_data (sample_annual 30000)) hub)
        (outflow (calculate_sankey_data (sample_annual 30000)) hub)"
  by (simp add: inflow_hub outflow_hub sample_annual_def cat_def within_tol_def)

text \<open>
  C2: after aggregation the total's \<open>actual\<close> and \<open>budgeted\<close> equal the sums of the
  categories' \<open>actual\<close> and \<open>budgeted\<close> within the tolerance, for any list of categories
  (those of the revenue record and those of the expense record alike), and the check
  after the aggregation passes.
\<close>

theorem total_is_sum_of_categories:
  "actual (derive_total cs) = sum_list (map actual cs) \<and>
   budgeted (derive_total cs) = sum_list (map budgeted cs) \<and>
   total_consistent cs (derive_total cs) \<and>
   aggregate cs = Inr (cs, derive_total cs)"
proof -
  have a: "actual (derive_total cs) = sum_list (map actual cs)"
    and b: "budgeted (derive_total cs) = sum_list (map budgeted cs)"
    by (simp_all add: derive_total_def derive_total_fold)
  have c: "total_consistent cs (derive_total cs)"
    by (simp add: total_consistent_def within_tol_def a b)
  show ?thesis using a b c by (simp add: aggregate_def)
qed

text \<open>
  C3, at a zero budget: the variance of the pages is not 0 there. It is NaN for a zero
  actual and an infinity otherwise, while the guarded division of the pipeline gives 0.
\<close>

theorem calculateVariance_zero_budget:
  "calculateVariance 0 0 = NaN \<and> calculateVariance 5000 0 = PosInf \<and>
   calculateVariance (- 5000) 0 = NegInf \<and> safe_divide (5000 - 0) 0 = 0"
  by (simp add: calculateVariance_def safe_divide_def)

text \<open>
  C4: the reserve classification is \<open>good\<close> from 3 months on, \<open>warning\<close> from 2 months
  up to (not including) 3, and \<open>critical\<close> below 2; the boundaries 3 and 2 belong to the
  higher tier, and 3.0, 2.999, 1.999 and 0 are classified good, warning, critical and
  critical.
\<close>

theorem reserve_health_tiers:
  "(3 \<le> m \<longrightarrow> reserve_health m = ''good'') \<and>
   (2 \<le> m \<and> m < 3 \<longrightarrow> reserve_health m = ''warning'') \<and>
   (m < 2 \<longrightarrow> reserve_health m = ''critical'') \<and>
   reserve_health 3 = ''good'' \<and> reserve_health 2 = ''warning'' \<and>
   reserve_health 2.999 = ''warning'' \<and> reserve_health 1.999 = ''critical'' \<and>
   reserve_health 0 = ''critical''"
  by (simp add: reserve_health_def)

theorem reserve_health_tiers_witness:
  "(3::real) \<le> 3.5 \<and> reserve_health 3.5 = ''good'' \<and>
   (2::real) \<le> 2.5 \<and> (2.5::real) < 3 \<and> reserve_health 2.5 = ''warning'' \<and>
   (1.5::real) < 2 \<and> reserve_health 1.5 = ''critical''"
  using reserve_health_tiers [of "3.5"] reserve_health_tiers [of "2.5"]
    reserve_health_tiers [of "1.5"]
  by simp

text \<open>
  C5, for a number that is already numeric: a cell of an integer column reaches the
  helper as a numpy integer, which is no instance of \<open>int\<close> or \<open>float\<close> and no string.
  For the cell 5, \<open>clean_currency\<close> falls through to its last \<open>return\<close> and gives 0,
  not 5, while \<open>safe_float\<close> converts the same value to 5. An \<open>int\<close> beyond the range
  of a double is not passed through either: its conversion raises.
\<close>

theorem clean_currency_integer_cell:
  "clean_currency (PObj (Some (Finite 5))) = Inr (Finite 0) \<and>
   safe_float (PObj (Some (Finite 5))) = Inr (Finite 5) \<and>
   clean_currency (PInt (10 ^ 400)) = Inl OverflowError"
  by (simp add: clean_currency_def safe_float_def float_of_int_def)

text \<open>
  C6, as amended: a string that begins with \<open>#\<close> is normalised to 0 by both helpers
  without an exception, so it does not abort the run, and no diagnostic is recorded for
  the cell: the helper returns the bare number it returns for a cell that holds 0, and
  what \<open>load_summary_data\<close> returns for a table with such a cell is what it returns for
  the table with the number 0 in its place.
\<close>

theorem error_token_is_zero:
  "clean_currency (PStr (CHR ''#'' # s)) = Inr (Finite 0) \<and>
   safe_float (PStr (CHR ''#'' # s)) = Inr (Finite 0) \<and>
   clean_currency (PStr (CHR ''#'' # s)) = clean_currency (PFloat (Finite 0)) \<and>
   (r < length df \<and> c < length (df ! r) \<and> df ! r ! c = PStr (CHR ''#'' # s) \<longrightarrow>
      load_summary_data (fs(summary_csv \<mapsto> df)) =
      load_summary_data (fs(summary_csv \<mapsto> set_cell df r c (PFloat (Finite 0)))))"
proof -
  have zero: "clean_currency (PStr (CHR ''#'' # s)) = Inr (Finite 0)"
    "clean_currency (PFloat (Finite 0)) = Inr (Finite 0)"
    by (simp_all add: clean_currency_def startswith_def)
  have safe: "safe_float (PStr (CHR ''#'' # s)) = Inr (Finite 0)"
    by (simp add: safe_float_def startswith_def)
  have "load_summary_data (fs(summary_csv \<mapsto> set_cell df r c (PFloat (Finite 0)))) =
      load_summary_data (fs(summary_csv \<mapsto> df))"
    if "r < length df" "c < length (df ! r)" "df ! r ! c = PStr (CHR ''#'' # s)"
    using that zero by (intro load_summary_data_set_cell) simp_all
  then show ?thesis using zero safe by simp
qed

theorem error_token_is_zero_witness:
  "17 < length (summary_table (PStr ''#REF!'')) \<and>
   2 < length (summary_table (PStr ''#REF!'') ! 17) \<and>
   summary_table (PStr ''#REF!'') ! 17 ! 2 = PStr ''#REF!'' \<and>
   load_summary_data (data_dir (PStr ''#REF!'')) =
     load_summary_data [summary_csv \<mapsto> set_cell (summary_table (PStr ''#REF!'')) 17 2 (PFloat (Finite 0))] \<and>
   load_summary_data (data_dir (PStr ''#REF!'')) = Inr (sample_trends (Finite 0))"
proof -
  have cell: "17 < length (summary_table (PStr ''#REF!''))"
    "2 < length (summary_table (PStr ''#REF!'') ! 17)"
    "summary_table (PStr ''#REF!'') ! 17 ! 2 = PStr ''#REF!''"
    by (simp_all add: summary_table_def nth_append)
  have loads: "load_summary_data (data_dir (PStr ''#REF!'')) = Inr (sample_trends (Finite 0))"
    by (rule sample_summary_loads) (simp add: clean_currency_def startswith_def)
  show ?thesis
    using error_token_is_zero [of "''REF!''" 17 "summary_table (PStr ''#REF!'')" 2 Map.empty]
      cell loads
    by (simp add: data_dir_def)
qed

text \<open>
  C6 as stated fails: a run over a summary table with the cell \<open>#REF!\<close> returns, and
  what it leaves is the seven records with 0 in the place of the cell, the very outcome
  of the run over the table that holds the number 0 there; no diagnostic is recorded
  for the cell.
\<close>

theorem error_token_counterexample:
  "clean_currency (PStr ''#REF!'') = Inr (Finite 0) \<and>
   main (const_loader (sample_annual 30000)) (const_loader ()) (const_loader ()) never_raises
     (data_dir (PStr ''#REF!'')) fresh_world =
     (Inr (),
      \<lparr> out_dir = True,
        written = output_records (sample_trends (Finite 0)) (sample_annual 30000) () () \<rparr>) \<and>
   main (const_loader (sample_annual 30000)) (const_loader ()) (const_loader ()) never_raises
     (data_dir (PStr ''#REF!'')) fresh_world =
   main (const_loader (sample_annual 30000)) (const_loader ()) (const_loader ()) never_raises
     (data_dir (PFloat (Finite 0))) fresh_world"
proof -
  have token: "clean_currency (PStr ''#REF!'') = Inr (Finite 0)"
    and zero: "clean_currency (PFloat (Finite 0)) = Inr (Finite 0)"
    by (simp_all add: clean_currency_def startswith_def)
  show ?thesis
    by (simp add: token sample_run [OF token] sample_run [OF zero] fresh_world_def)
qed

text \<open>
  C7, as amended: for a string that does not begin with \<open>#\<close> and whose rest, after every
  \<open>$\<close> and comma is removed and the white space around it stripped, is not empty and
  not accepted by \<open>float\<close>, \<open>clean_currency\<close> raises ValueError with that rest and
  nothing else. Nothing catches it: an exception that leaves \<open>load_summary_data\<close> ends
  the whole run with no record written. \<open>safe_float\<close> gives 0 for every string \<open>float\<close>
  does not accept.
\<close>

theorem unparseable_string_raises:
  "(\<not> startswith s ''#'' \<and>
    py_strip (filter (\<lambda>c. c \<noteq> CHR ''$'' \<and> c \<noteq> CHR '','') s) = cleaned \<and>
    cleaned \<noteq> [] \<and> float_str cleaned = None \<longrightarrow>
      clean_currency (PStr s) = Inl (ValueError cleaned)) \<and>
   (load_summary_data fs = Inl e \<longrightarrow>
      main la lp lc sv fs w = (Inl e, w\<lparr> out_dir := True \<rparr>)) \<and>
   (float_str s = None \<longrightarrow> safe_float (PStr s) = Inr (Finite 0))"
proof -
  have "clean_currency (PStr s) = Inl (ValueError cleaned)"
    if "\<not> startswith s ''#''"
      and "py_strip (filter (\<lambda>c. c \<noteq> CHR ''$'' \<and> c \<noteq> CHR '','') s) = cleaned"
      and "cleaned \<noteq> []" and "float_str cleaned = None"
    using that clean_currency_string [of s] by (simp add: Let_def float_of_str_def)
  moreover have "safe_float (PStr s) = Inr (Finite 0)" if "float_str s = None"
    using that by (simp add: safe_float_def float_of_str_def)
  ultimately show ?thesis
    using main_raises [of fs e la lp lc sv w] by blast
qed

theorem unparseable_string_raises_witness:
  "clean_currency (PStr ''(1,234)'') = Inl (ValueError ''(1234)'') \<and>
   load_summary_data (data_dir (PStr ''(1,234)'')) = Inl (ValueError ''(1234)'') \<and>
   main (const_loader (sample_annual 30000)) (const_loader ()) (const_loader ()) never_raises
     (data_dir (PStr ''(1,234)'')) earlier_world =
     (Inl (ValueError ''(1234)''), earlier_world) \<and>
   safe_float (PStr ''(1,234)'') = Inr (Finite 0)"
proof -
  have pre: "\<not> startswith ''(1,234)'' ''#''"
    "py_strip (filter (\<lambda>c. c \<noteq> CHR ''$'' \<and> c \<noteq> CHR '','') ''(1,234)'') = ''(1234)''"
    "''(1234)'' \<noteq> []"
    by (simp_all add: startswith_def py_strip_def strip_chars_def py_isspace_def)
  note inst = unparseable_string_raises [of "''(1,234)''" "''(1234)''"
      "data_dir (PStr ''(1,234)'')" "ValueError ''(1234)''" "const_loader (sample_annual 30000)"
      "const_loader ()" "const_loader ()" never_raises earlier_world]
  have raised: "clean_currency (PStr ''(1,234)'') = Inl (ValueError ''(1234)'')"
    using inst pre not_a_number by blast
  have loaded: "load_summary_data (data_dir (PStr ''(1,234)'')) = Inl (ValueError ''(1234)'')"
    using raised by (rule sample_summary_raises)
  show ?thesis
    using inst raised loaded not_a_number by (simp add: earlier_world_def)
qed

text \<open>
  C7 as stated fails: for the cell \<open>$ n/a\<close> the exception is a ValueError that carries
  the stripped string only, no field name; it ends the whole run, not the one field, and
  no record is written; and \<open>safe_float\<close> does not fail on that string at all.
\<close>

theorem parse_error_counterexample:
  "clean_currency (PStr ''$ n/a'') = Inl (ValueError ''n/a'') \<and>
   main (const_loader (sample_annual 30000)) (const_loader ()) (const_loader ()) never_raises
     (data_dir (PStr ''$ n/a'')) fresh_world =
     (Inl (ValueError ''n/a''), \<lparr> out_dir = True, written = [] \<rparr>) \<and>
   safe_float (PStr ''$ n/a'') = Inr (Finite 0)"
proof -
  have raised: "clean_currency (PStr ''$ n/a'') = Inl (ValueError ''n/a'')"
    by (simp add: clean_currency_def startswith_def replace_char_empty_def py_strip_def
        strip_chars_def py_isspace_def float_of_str_def not_a_number)
  have "load_summary_data (data_dir (PStr ''$ n/a'')) = Inl (ValueError ''n/a'')"
    using raised by (rule sample_summary_raises)
  then have "main (const_loader (sample_annual 30000)) (const_loader ()) (const_loader ())
     never_raises (data_dir (PStr ''$ n/a'')) fresh_world =
     (Inl (ValueError ''n/a''), \<lparr> out_dir = True, written = [] \<rparr>)"
    by (simp add: main_raises fresh_world_def)
  moreover have "safe_float (PStr ''$ n/a'') = Inr (Finite 0)"
    by (simp add: safe_float_def startswith_def float_of_str_def not_a_number)
  ultimately show ?thesis using raised by simp
qed




text \<open>
  C9, as amended: the edge from the hub to Payroll carries the sum of the actuals of
  salaries and wages, payroll taxes and benefits, and the edge from the hub to Operations
  carries the total expense actual minus that sum; the expense page computes the same two
  numbers. A negative operations value is passed on as it is, never clamped, and it is
  not surfaced as a warning: the labels and the ends of the edges are the same whatever
  the values, and the graph holds nothing else.
\<close>

theorem payroll_operations_split:
  "edges (calculate_sankey_data a) ! 6 =
     (hub, 7, actual (salaries_wages (expenses a)) + actual (payroll_taxes (expenses a)) +
              actual (benefits (expenses a))) \<and>
   edges (calculate_sankey_data a) ! 7 =
     (hub, 8, actual (expenses_total (expenses a)) -
              (actual (salaries_wages (expenses a)) + actual (payroll_taxes (expenses a)) +
               actual (benefits (expenses a)))) \<and>
   labels (calculate_sankey_data a) ! 7 = ''Payroll'' \<and>
   labels (calculate_sankey_data a) ! 8 = ''Operations'' \<and>
   payrollTotal (expenses a) =
     actual (salaries_wages (expenses a)) + actual (payroll_taxes (expenses a)) +
     actual (benefits (expenses a)) \<and>
   operationsTotal (expenses a) = actual (expenses_total (expenses a)) - payrollTotal (expenses a) \<and>
   (actual (expenses_total (expenses a)) < payrollTotal (expenses a) \<longrightarrow>
      edge_values (calculate_sankey_data a) ! 7 < 0 \<and> operationsTotal (expenses a) < 0) \<and>
   labels (calculate_sankey_data a) =
     [''Contributions'', ''Grants'', ''Earned Revenue'', ''Events'', ''Sponsorships'', ''Other'',
      ''Organization'', ''Payroll'', ''Operations''] \<and>
   sources (calculate_sankey_data a) = [0, 1, 2, 3, 4, 5, 6, 6] \<and>
   targets (calculate_sankey_data a) = [6, 6, 6, 6, 6, 6, 7, 8] \<and>
   length (edge_values (calculate_sankey_data a)) = 8"
  by (simp add: edges_def calculate_sankey_data_def hub_def Let_def payrollTotal_def
      operationsTotal_def)

theorem payroll_operations_split_witness:
  "actual (expenses_total (expenses (sample_annual 20000))) <
     payrollTotal (expenses (sample_annual 20000)) \<and>
   edges (calculate_sankey_data (sample_annual 20000)) ! 6 = (hub, 7, 25000) \<and>
   edges (calculate_sankey_data (sample_annual 20000)) ! 7 = (hub, 8, - 5000) \<and>
   edge_values (calculate_sankey_data (sample_annual 20000)) ! 7 < 0 \<and>
   operationsTotal (expenses (sample_annual 20000)) < 0"
  using payroll_operations_split [of "sample_annual 20000"]
  by (simp add: sample_annual_def cat_def payrollTotal_def)

text \<open>
  C9 as stated fails in its warning: with 25000 of payroll and a total expense of 20000
  the graph carries -5000 on the Operations edge and is otherwise the graph of any other
  data; the run returns and leaves the seven records, the graph among them. No warning
  is surfaced.
\<close>

theorem negative_flow_counterexample:
  "calculate_sankey_data (sample_annual 20000) =
     \<lparr> labels = [''Contributions'', ''Grants'', ''Earned Revenue'', ''Events'', ''Sponsorships'',
                 ''Other'', ''Organization'', ''Payroll'', ''Operations''],
       sources = [0, 1, 2, 3, 4, 5, 6, 6], targets = [6, 6, 6, 6, 6, 6, 7, 8],
       edge_values = [0, 50000, 0, 0, 0, 0, 25000, - 5000] \<rparr> \<and>
   main (const_loader (sample_annual 20000)) (const_loader ()) (const_loader ()) never_raises
     (data_dir (PFloat (Finite 1000))) fresh_world =
     (Inr (),
      \<lparr> out_dir = True,
        written = output_records (sample_trends (Finite 1000)) (sample_annual 20000) () () \<rparr>)"
proof -
  have "clean_currency (PFloat (Finite 1000)) = Inr (Finite 1000)"
    by (simp add: clean_currency_def)
  then show ?thesis
    by (simp add: sample_run calculate_sankey_data_def sample_annual_def cat_def fresh_world_def)
qed




end
